theory Spec2Isabelle
  imports Complex_Main "HOL-Library.Multiset"
begin

section \<open>Data model of the triage console (src/src/App.jsx)\<close>

text \<open>
  A queue record as the components read it. The fields are the ones the code accesses
  on an element of \<open>queueData.patients\<close>: \<open>p.patient_id\<close>, \<open>p.triage\<close>,
  \<open>p.risk_score\<close>, \<open>p.status\<close>, \<open>p.predicted_next_move\<close>, \<open>p.priority\<close>,
  and, for re-triage, \<open>p.age\<close>, \<open>p.gender\<close>, \<open>p.rural\<close>, \<open>p.vitals\<close> and
  \<open>p.symptoms\<close>. The category is kept as the string the code compares with
  \<open>===\<close>; \<open>risk_score\<close> is the integer score 0..100 of the data model.
\<close>

record vitals =
  heart_rate :: real
  systolic_bp :: real
  spo2 :: real
  temperature :: real

record patient =
  patient_id :: string
  age :: real
  gender :: string
  rural :: bool
  vitals :: vitals
  symptoms :: "string list"
  triage :: string
  risk_score :: int
  status :: string
  predicted_next_move :: string
  priority :: string

section \<open>Critical alerts (CriticalNotifications, lines 144-194)\<close>

text \<open>
  The filter predicate of line 149:
  \<open>p.triage === "RED" || p.triage === "ORANGE" || p.risk_score >= 60\<close>.
\<close>

definition is_critical :: "patient \<Rightarrow> bool" where
  "is_critical p \<longleftrightarrow> triage p = ''RED'' \<or> triage p = ''ORANGE'' \<or> risk_score p \<ge> 60"

definition criticalSubset :: "patient list \<Rightarrow> patient list" where
  "criticalSubset ps = filter is_critical ps"

text \<open>
  Lines 148-150: the critical subset of the \<open>patients\<close> prop, without the ids of the
  component's \<open>dismissed\<close> set.
\<close>

definition critical :: "patient list \<Rightarrow> string set \<Rightarrow> patient list" where
  "critical ps d = filter (\<lambda>p. patient_id p \<notin> d) (criticalSubset ps)"

text \<open>
  The component: its prop \<open>patients\<close> and its two pieces of \<open>useState\<close>, which start as
  \<open>new Set()\<close> and \<open>true\<close> when the dashboard view is mounted.
\<close>

record notifications =
  patients :: "patient list"
  dismissed :: "string set"
  expanded :: bool

definition mount_notifications :: "patient list \<Rightarrow> notifications" where
  "mount_notifications ps = \<lparr>patients = ps, dismissed = {}, expanded = True\<rparr>"

text \<open>
  What is on screen: nothing when \<open>critical\<close> is empty (line 152), nothing but the
  header when collapsed (line 175), otherwise the first five alerts (line 177).
\<close>

definition rendered_alerts :: "notifications \<Rightarrow> patient list" where
  "rendered_alerts s =
     (let c = critical (patients s) (dismissed s)
      in if c = [] then [] else if expanded s then take 5 c else [])"

definition rendered_ids :: "notifications \<Rightarrow> string set" where
  "rendered_ids s = patient_id ` set (rendered_alerts s)"

text \<open>
  The events that reach the component during one dashboard view:
  \<^item> \<open>Snapshot ps\<close>: the parent re-renders it with the patients of a new queue snapshot;
  \<^item> \<open>Dismiss pid\<close>: a click on the Dismiss button of the alert of \<open>pid\<close> (line 186,
    \<open>setDismissed(d => new Set([...d, p.patient_id]))\<close>); the button exists only for a
    rendered alert;
  \<^item> \<open>ToggleExpanded\<close>: a click on the header (line 164), which exists only when
    \<open>critical\<close> is not empty.
\<close>

datatype notif_event = Snapshot "patient list" | Dismiss string | ToggleExpanded

fun notif_step :: "notifications \<Rightarrow> notif_event \<Rightarrow> notifications" where
  "notif_step s (Snapshot ps) = s\<lparr>patients := ps\<rparr>"
| "notif_step s (Dismiss pid) =
     (if pid \<in> rendered_ids s then s\<lparr>dismissed := insert pid (dismissed s)\<rparr> else s)"
| "notif_step s ToggleExpanded =
     (if critical (patients s) (dismissed s) = [] then s else s\<lparr>expanded := \<not> expanded s\<rparr>)"

definition notif_run :: "notifications \<Rightarrow> notif_event list \<Rightarrow> notifications" where
  "notif_run s evs = foldl notif_step s evs"

text \<open>An event list in which every snapshot keeps \<open>pid\<close> in the critical subset.\<close>

fun keeps_critical :: "string \<Rightarrow> notif_event \<Rightarrow> bool" where
  "keeps_critical pid (Snapshot ps) = (pid \<in> patient_id ` set (criticalSubset ps))"
| "keeps_critical pid (Dismiss q) = True"
| "keeps_critical pid ToggleExpanded = True"

section \<open>Snapshot pollers (QueuePage 684-689, DashboardPage 1246-1250, AnalyticsPage 1327-1342)\<close>

record queue_data =
  qd_patients :: "patient list"
  queue_last_updated :: string

text \<open>The \<open>useState\<close> cells of QueuePage (lines 678-682).\<close>

record queue_page =
  queueData :: "queue_data option"
  loading :: bool
  selected :: "string option"
  expandedRow :: "string option"
  historyPatient :: "string option"

definition queue_page_init :: queue_page where
  "queue_page_init =
     \<lparr>queueData = None, loading = True, selected = None, expandedRow = None,
      historyPatient = None\<rparr>"

text \<open>
  \<open>fetch_\<close> (lines 684-687) from the point where \<open>await api.queue()\<close> settles:
  \<open>Inr d\<close> is the resolved payload, \<open>Inl msg\<close> the rejection, which the empty
  \<open>catch {}\<close> swallows. \<open>setLoading(false)\<close> runs on both paths.
\<close>

fun fetch_settled :: "queue_page \<Rightarrow> string + queue_data \<Rightarrow> queue_page" where
  "fetch_settled s (Inr d) = s\<lparr>queueData := Some d, loading := False\<rparr>"
| "fetch_settled s (Inl msg) = s\<lparr>loading := False\<rparr>"

text \<open>DashboardPage: \<open>api.queue().then(setQueueData).catch(() => {})\<close> (lines 1247-1248).\<close>

record dashboard_page =
  dash_queueData :: "queue_data option"
  explainId :: "string option"

fun dashboard_settled :: "dashboard_page \<Rightarrow> string + queue_data \<Rightarrow> dashboard_page" where
  "dashboard_settled s (Inr d) = s\<lparr>dash_queueData := Some d\<rparr>"
| "dashboard_settled s (Inl msg) = s"

text \<open>
  AnalyticsPage, \<open>loadSummary\<close> (lines 1327-1336): a failure resets the summary to
  \<open>null\<close>. The summary payload is only drawn, so its type is left open.
\<close>

record 'a analytics_page =
  summary :: "'a option"
  an_loading :: bool

fun loadSummary_settled :: "'a analytics_page \<Rightarrow> string + 'a \<Rightarrow> 'a analytics_page" where
  "loadSummary_settled s (Inr d) = s\<lparr>summary := Some d, an_loading := False\<rparr>"
| "loadSummary_settled s (Inl msg) = s\<lparr>summary := None, an_loading := False\<rparr>"

text \<open>
  A mounted poller: the page state and the number of requests issued by the poller that
  have not settled yet. The effect (line 689, lines 1246-1250, lines 1338-1342) calls the
  fetch once and then registers it with \<open>setInterval\<close>; the timer callback is the
  fetch itself, with no test of an earlier request. The events:
  \<^item> \<open>TimerTick\<close>: the interval timer fires;
  \<^item> \<open>RefreshClick\<close>: the Refresh button of the queue screen (line 706), also \<open>fetch_\<close>;
  \<^item> \<open>Settled r\<close>: a pending request resolves (\<open>Inr\<close>) or rejects
    (\<open>Inl\<close>); without a pending request there is nothing to settle.
\<close>

record 'p poller =
  page_state :: 'p
  in_flight :: nat

datatype 'd poll_event = TimerTick | RefreshClick | Settled "string + 'd"

definition poller_mount :: "'p \<Rightarrow> 'p poller" where
  "poller_mount p = \<lparr>page_state = p, in_flight = 1\<rparr>"

fun poller_step :: "('p \<Rightarrow> string + 'd \<Rightarrow> 'p) \<Rightarrow> 'p poller \<Rightarrow> 'd poll_event \<Rightarrow> 'p poller" where
  "poller_step settle s TimerTick = s\<lparr>in_flight := in_flight s + 1\<rparr>"
| "poller_step settle s RefreshClick = s\<lparr>in_flight := in_flight s + 1\<rparr>"
| "poller_step settle s (Settled r) =
     (if in_flight s = 0 then s
      else \<lparr>page_state = settle (page_state s) r, in_flight = in_flight s - 1\<rparr>)"

definition poller_run :: "('p \<Rightarrow> string + 'd \<Rightarrow> 'p) \<Rightarrow> 'p poller \<Rightarrow> 'd poll_event list \<Rightarrow> 'p poller" where
  "poller_run settle s evs = foldl (poller_step settle) s evs"

text \<open>
  A schedule in which every fetch settles before the next one is started: \<open>n\<close> is the
  number of requests pending when the schedule begins.
\<close>

fun settles_before_next :: "nat \<Rightarrow> 'd poll_event list \<Rightarrow> bool" where
  "settles_before_next n [] = True"
| "settles_before_next n (TimerTick # evs) = (n = 0 \<and> settles_before_next 1 evs)"
| "settles_before_next n (RefreshClick # evs) = (n = 0 \<and> settles_before_next 1 evs)"
| "settles_before_next n (Settled r # evs) = settles_before_next (n - 1) evs"

section \<open>Derived views (QueuePage 691-692, TopPatientsCard 1133, DashboardPage 1252-1256)\<close>

text \<open>
  \<open>Array.prototype.sort(compareFn)\<close> is a stable sort (ECMAScript 2019): it is modelled
  as the stable insertion sort by the comparator, where \<open>x\<close> goes in front of \<open>y\<close>
  when \<open>compareFn(x, y) \<le> 0\<close>. Elements are inserted from the right, so that of two
  elements that compare equal the one from the left ends up in front.
\<close>

fun insert_by :: "('a \<Rightarrow> 'a \<Rightarrow> int) \<Rightarrow> 'a \<Rightarrow> 'a list \<Rightarrow> 'a list" where
  "insert_by cmp x [] = [x]"
| "insert_by cmp x (y # ys) =
     (if cmp x y \<le> 0 then x # y # ys else y # insert_by cmp x ys)"

definition array_sort :: "('a \<Rightarrow> 'a \<Rightarrow> int) \<Rightarrow> 'a list \<Rightarrow> 'a list" where
  "array_sort cmp xs = foldr (insert_by cmp) xs []"

text \<open>The comparator \<open>(a, b) => b.risk_score - a.risk_score\<close>.\<close>

definition by_risk_desc :: "patient \<Rightarrow> patient \<Rightarrow> int" where
  "by_risk_desc a b = risk_score b - risk_score a"

definition sortedByRisk :: "patient list \<Rightarrow> patient list" where
  "sortedByRisk ps = array_sort by_risk_desc ps"

text \<open>Line 691: \<open>queueData?.patients?.slice().sort(...) || []\<close>.\<close>

definition queue_sorted :: "queue_data option \<Rightarrow> patient list" where
  "queue_sorted qd = (case qd of None \<Rightarrow> [] | Some d \<Rightarrow> sortedByRisk (qd_patients d))"

text \<open>Line 1133 and line 1196: the first three and the first eight of the sorted list.\<close>

definition top3 :: "patient list \<Rightarrow> patient list" where
  "top3 ps = take 3 (sortedByRisk ps)"

definition summary_rows :: "patient list \<Rightarrow> patient list" where
  "summary_rows ps = take 8 (sortedByRisk ps)"

text \<open>Line 692: one \<open>{name, count}\<close> entry per category, in this order.\<close>

definition categories :: "string list" where
  "categories = [''RED'', ''ORANGE'', ''YELLOW'', ''GREEN'']"

definition categoryStats :: "patient list \<Rightarrow> (string \<times> nat) list" where
  "categoryStats sorted_ps =
     map (\<lambda>cat. (cat, length (filter (\<lambda>p. triage p = cat) sorted_ps))) categories"

text \<open>Lines 1252-1256: \<open>pts\<close> and the four counters of the dashboard.\<close>

definition pts :: "queue_data option \<Rightarrow> patient list" where
  "pts qd = (case qd of None \<Rightarrow> [] | Some d \<Rightarrow> qd_patients d)"

definition red :: "patient list \<Rightarrow> nat" where
  "red ps = length (filter (\<lambda>p. triage p = ''RED'') ps)"

definition orange :: "patient list \<Rightarrow> nat" where
  "orange ps = length (filter (\<lambda>p. triage p = ''ORANGE'') ps)"

definition yellow :: "patient list \<Rightarrow> nat" where
  "yellow ps = length (filter (\<lambda>p. triage p = ''YELLOW'') ps)"

definition green :: "patient list \<Rightarrow> nat" where
  "green ps = length (filter (\<lambda>p. triage p = ''GREEN'') ps)"

text \<open>
  The data model's constraint on a record: its category is one of the four triage
  categories.
\<close>

definition valid_category :: "patient \<Rightarrow> bool" where
  "valid_category p \<longleftrightarrow> triage p \<in> set categories"

section \<open>Symptoms of a submission (AddPatientForm.submit, lines 314-321)\<close>

text \<open>
  Strings are byte lists here, so \<open>trim\<close> strips the ASCII white space and line
  terminators of JavaScript's \<open>String.prototype.trim\<close> (tab, line feed, vertical tab,
  form feed, carriage return, space) and \<open>toLowerCase\<close> maps the letters A-Z.
\<close>

definition is_space :: "char \<Rightarrow> bool" where
  "is_space c \<longleftrightarrow> c = CHR '' '' \<or> c = CHR 0x09 \<or> c = CHR 0x0A \<or> c = CHR 0x0B
     \<or> c = CHR 0x0C \<or> c = CHR 0x0D"

definition trim :: "string \<Rightarrow> string" where
  "trim s = rev (dropWhile is_space (rev (dropWhile is_space s)))"

definition lower_char :: "char \<Rightarrow> char" where
  "lower_char c =
     (let n = (of_char c :: nat) in if 65 \<le> n \<and> n \<le> 90 then char_of (n + 32) else c)"

definition toLowerCase :: "string \<Rightarrow> string" where
  "toLowerCase s = map lower_char s"

text \<open>\<open>s.split(c)\<close>: the pieces between the separators, one piece for the empty string.\<close>

fun split_on :: "char \<Rightarrow> string \<Rightarrow> string list" where
  "split_on c [] = [[]]"
| "split_on c (x # xs) =
     (if x = c then [] # split_on c xs
      else (case split_on c xs of [] \<Rightarrow> [[x]] | piece # pieces \<Rightarrow> (x # piece) # pieces))"

text \<open>
  A JavaScript \<open>Map\<close> keeps its keys in the order of their first insertion; \<open>set\<close> on a
  key that is present replaces the value where the key already stands. \<open>new Map(entries)\<close>
  calls \<open>set\<close> for the entries from left to right; \<open>values()\<close> lists the values in key
  order.
\<close>

fun map_set :: "('k \<times> 'v) list \<Rightarrow> 'k \<Rightarrow> 'v \<Rightarrow> ('k \<times> 'v) list" where
  "map_set [] k v = [(k, v)]"
| "map_set ((k', v') # m) k v =
     (if k' = k then (k, v) # m else (k', v') # map_set m k v)"

definition new_Map :: "('k \<times> 'v) list \<Rightarrow> ('k \<times> 'v) list" where
  "new_Map entries = foldl (\<lambda>m (k, v). map_set m k v) [] entries"

definition map_values :: "('k \<times> 'v) list \<Rightarrow> 'v list" where
  "map_values m = map snd m"

text \<open>Lines 314-317: \<open>form.symptoms.split(",").map((s) => s.trim()).filter(Boolean)\<close>.\<close>

definition split_symptoms :: "string \<Rightarrow> string list" where
  "split_symptoms txt = filter (\<lambda>s. s \<noteq> []) (map trim (split_on CHR '','' txt))"

text \<open>Line 321: \<open>[...new Map(symptoms.map((s) => [s.toLowerCase(), s])).values()]\<close>.\<close>

definition dedupedSymptoms :: "string list \<Rightarrow> string list" where
  "dedupedSymptoms syms = map_values (new_Map (map (\<lambda>s. (toLowerCase s, s)) syms))"



section \<open>The submission (AddPatientForm, lines 244-343)\<close>

text \<open>Decimal rendering of a number inside a template literal.\<close>

fun digits :: "nat \<Rightarrow> string" where
  "digits n =
     (if n < 10 then [char_of (48 + n)]
      else digits (n div 10) @ [char_of (48 + n mod 10)])"

declare digits.simps [simp del]

datatype field_key = Age | Heart_rate | Systolic_bp | Spo2 | Temperature

record limits =
  lim_min :: nat
  lim_max :: nat
  lim_label :: string

text \<open>Lines 70-76.\<close>

fun INPUT_LIMITS :: "field_key \<Rightarrow> limits" where
  "INPUT_LIMITS Age = \<lparr>lim_min = 0, lim_max = 120, lim_label = ''Age''\<rparr>"
| "INPUT_LIMITS Heart_rate = \<lparr>lim_min = 20, lim_max = 240, lim_label = ''Heart rate''\<rparr>"
| "INPUT_LIMITS Systolic_bp = \<lparr>lim_min = 50, lim_max = 260, lim_label = ''Systolic BP''\<rparr>"
| "INPUT_LIMITS Spo2 = \<lparr>lim_min = 50, lim_max = 100, lim_label = ''SpO2''\<rparr>"
| "INPUT_LIMITS Temperature = \<lparr>lim_min = 30, lim_max = 45, lim_label = ''Temperature''\<rparr>"

text \<open>
  The form. A numeric field holds the result of \<open>Number(form.field)\<close>: \<open>None\<close> when it
  is not finite (\<open>NaN\<close>, an infinity), the number otherwise; \<open>Number("")\<close> is 0.
\<close>

record form_values =
  form_patient_id :: string
  form_age :: "real option"
  form_gender :: string
  form_rural :: bool
  form_heart_rate :: "real option"
  form_systolic_bp :: "real option"
  form_spo2 :: "real option"
  form_temperature :: "real option"
  form_symptoms :: string

record payload =
  p_patient_id :: string
  p_age :: real
  p_gender :: string
  p_rural :: bool
  p_vitals :: vitals
  p_symptoms :: "string list"

text \<open>The loop of lines 307-312: the message of the first value outside its limits.\<close>

fun rangeChecks :: "(field_key \<times> real) list \<Rightarrow> string option" where
  "rangeChecks [] = None"
| "rangeChecks ((k, v) # items) =
     (let l = INPUT_LIMITS k
      in if v < real (lim_min l) \<or> v > real (lim_max l)
         then Some (lim_label l @ '' must be between '' @ digits (lim_min l) @ '' and ''
                    @ digits (lim_max l) @ ''.'')
         else rangeChecks items)"

text \<open>
  Lines 291-330: everything \<open>submit\<close> does before the first request. \<open>Inl msg\<close> is a
  thrown \<open>Error(msg)\<close>.
\<close>

definition build_payload :: "form_values \<Rightarrow> string + payload" where
  "build_payload f =
     (if form_age f = None \<or> form_heart_rate f = None \<or> form_systolic_bp f = None
         \<or> form_spo2 f = None \<or> form_temperature f = None
      then Inl ''Please fill all required vitals before submitting.''
      else
        let a = the (form_age f); hr = the (form_heart_rate f);
            sbp = the (form_systolic_bp f); ox = the (form_spo2 f);
            temp = the (form_temperature f)
        in case rangeChecks [(Age, a), (Heart_rate, hr), (Systolic_bp, sbp), (Spo2, ox),
                             (Temperature, temp)] of
             Some msg \<Rightarrow> Inl msg
           | None \<Rightarrow>
               let syms = split_symptoms (form_symptoms f)
               in if length syms > 12 then Inl ''Please provide up to 12 symptoms only.''
                  else Inr \<lparr>p_patient_id = form_patient_id f, p_age = a,
                            p_gender = form_gender f, p_rural = form_rural f,
                            p_vitals = \<lparr>heart_rate = hr, systolic_bp = sbp, spo2 = ox,
                                        temperature = temp\<rparr>,
                            p_symptoms = dedupedSymptoms syms\<rparr>)"

text \<open>
  The responses the result panel reads: of \<open>POST /triage\<close>, of the next-move prediction
  and of the recommendations. A field the panel guards with \<open>||\<close> may be absent.
\<close>

record triage_result =
  r_risk_score :: int
  r_triage_category :: string
  r_deterioration_probability_60min :: real
  r_action :: string
  r_confidence :: string
  r_predicted_next_move :: "string option"
  r_priority :: "string option"
  r_timestamp :: string

record prediction =
  n_predicted_next_move :: "string option"
  n_priority :: "string option"
  n_confidence_band :: "string option"

record recommendation_data =
  rec_recommendations :: "string list option"
  rec_source :: string

text \<open>
  \<open>a || b\<close> on strings that may be absent (the empty string is falsy), and
  \<open>list.join(", ")\<close>.
\<close>

definition or_else :: "string option \<Rightarrow> string option \<Rightarrow> string option" where
  "or_else a b = (case a of None \<Rightarrow> b | Some x \<Rightarrow> if x = [] then b else Some x)"

definition or_default :: "string option \<Rightarrow> string \<Rightarrow> string" where
  "or_default a d = (case a of None \<Rightarrow> d | Some x \<Rightarrow> if x = [] then d else x)"

fun join_comma :: "string list \<Rightarrow> string" where
  "join_comma [] = []"
| "join_comma [x] = x"
| "join_comma (x # y # ys) = x @ '', '' @ join_comma (y # ys)"

text \<open>
  \<open>request\<close> (lines 10-23) on a response that is not ok: the \<open>detail\<close> of the body is
  a string, a list of objects of which the truthy \<open>msg\<close> fields are joined, or anything
  else; the message thrown is \<open>detail || `API ${response.status}`\<close>.
\<close>

datatype detail = DetailString string | DetailList "string option list" | NoDetail

definition request_error_message :: "nat \<Rightarrow> detail \<Rightarrow> string" where
  "request_error_message http_status d =
     or_default
       (case d of
          DetailString t \<Rightarrow> Some t
        | DetailList ds \<Rightarrow> Some (join_comma (filter (\<lambda>m. m \<noteq> []) (map (\<lambda>m. or_default m []) ds)))
        | NoDetail \<Rightarrow> None)
       (''API '' @ digits http_status)"

text \<open>
  The remote gateway as the form sees it: each call settles with \<open>Inr\<close> payload or
  rejects with \<open>Inl\<close> the message of the \<open>Error\<close> that \<open>request\<close> throws.
\<close>

record backend =
  api_triage :: "payload \<Rightarrow> string + triage_result"
  api_nextMove :: "string \<Rightarrow> string + prediction"
  api_recommendations :: "string \<Rightarrow> string + recommendation_data"

datatype api_call = Triage payload | NextMove string | Recommendations string

text \<open>The \<open>useState\<close> cells of AddPatientForm (lines 247-263).\<close>

record add_patient =
  form :: form_values
  ap_loading :: bool
  result :: "triage_result option"
  error :: "string option"
  nextMove :: "prediction option"
  recommendations :: "string list"

text \<open>Line 340: \<open>err?.message || "Failed to submit triage."\<close>.\<close>

definition error_message :: "string \<Rightarrow> string" where
  "error_message msg = (if msg = [] then ''Failed to submit triage.'' else msg)"

text \<open>\<open>promise.catch(() => null)\<close> (lines 334-335).\<close>

definition catch_null :: "string + 'a \<Rightarrow> 'a option" where
  "catch_null r = (case r of Inl msg \<Rightarrow> None | Inr v \<Rightarrow> Some v)"

text \<open>Line 338: \<open>recommendationData?.recommendations || []\<close>.\<close>

definition recommendations_or_empty :: "recommendation_data option \<Rightarrow> string list" where
  "recommendations_or_empty r =
     (case r of None \<Rightarrow> []
      | Some d \<Rightarrow> (case rec_recommendations d of None \<Rightarrow> [] | Some l \<Rightarrow> l))"

text \<open>
  \<open>submit\<close> (lines 287-343): the states the component goes through, in order, and the
  requests issued. The first state is the reset of line 289; after a successful triage
  call comes the state with the result set (line 332), while both secondary calls are
  pending; the last state is the one after \<open>setLoading(false)\<close>.
\<close>

definition submit_states :: "backend \<Rightarrow> add_patient \<Rightarrow> add_patient list \<times> api_call list" where
  "submit_states be s =
     (let s0 = s\<lparr>ap_loading := True, result := None, error := None, nextMove := None,
                 recommendations := []\<rparr>
      in case build_payload (form s) of
           Inl msg \<Rightarrow> ([s0, s0\<lparr>error := Some (error_message msg), ap_loading := False\<rparr>], [])
         | Inr pl \<Rightarrow>
             (case api_triage be pl of
                Inl msg \<Rightarrow>
                  ([s0, s0\<lparr>error := Some (error_message msg), ap_loading := False\<rparr>],
                   [Triage pl])
              | Inr data \<Rightarrow>
                  let s1 = s0\<lparr>result := Some data\<rparr>;
                      predictionData = catch_null (api_nextMove be (p_patient_id pl));
                      recommendationData = catch_null (api_recommendations be (p_patient_id pl))
                  in ([s0, s1,
                       s1\<lparr>nextMove := predictionData,
                          recommendations := recommendations_or_empty recommendationData,
                          ap_loading := False\<rparr>],
                      [Triage pl, NextMove (p_patient_id pl),
                       Recommendations (p_patient_id pl)])))"

definition submit :: "backend \<Rightarrow> add_patient \<Rightarrow> add_patient" where
  "submit be s = last (fst (submit_states be s))"

definition submit_calls :: "backend \<Rightarrow> add_patient \<Rightarrow> api_call list" where
  "submit_calls be s = snd (submit_states be s)"

text \<open>The result panel (lines 456-564).\<close>

definition replaceAll_underscores :: "string \<Rightarrow> string" where
  "replaceAll_underscores s = map (\<lambda>c. if c = CHR ''_'' then CHR '' '' else c) s"

record result_card =
  card_category :: string
  card_risk_score :: int
  card_confidence :: string
  card_predicted_move :: string
  card_priority :: string

text \<open>Lines 456 and 472-481: the card exists when \<open>result\<close> is set.\<close>

definition result_panel :: "add_patient \<Rightarrow> result_card option" where
  "result_panel s =
     (case result s of
        None \<Rightarrow> None
      | Some r \<Rightarrow>
          Some \<lparr>card_category = r_triage_category r,
                card_risk_score = r_risk_score r,
                card_confidence = r_confidence r,
                card_predicted_move =
                  replaceAll_underscores
                    (or_default
                       (or_else (case nextMove s of None \<Rightarrow> None
                                 | Some n \<Rightarrow> n_predicted_next_move n)
                                (r_predicted_next_move r))
                       ''N/A''),
                card_priority =
                  or_default
                    (or_else (case nextMove s of None \<Rightarrow> None | Some n \<Rightarrow> n_priority n)
                             (r_priority r))
                    ''N/A''\<rparr>)"

text \<open>Line 496: the prediction section exists when there is something to show.\<close>

definition prediction_section :: "add_patient \<Rightarrow> bool" where
  "prediction_section s \<longleftrightarrow> result s \<noteq> None \<and> (nextMove s \<noteq> None \<or> recommendations s \<noteq> [])"

text \<open>Line 448: the error banner.\<close>

definition error_banner :: "add_patient \<Rightarrow> string option" where
  "error_banner s = (case error s of None \<Rightarrow> None | Some m \<Rightarrow> if m = [] then None else Some m)"

section \<open>Re-triage workflow (App, lines 1484-1513; AddPatientForm, lines 244-285)\<close>

datatype page_id = DashboardP | QueueP | AddPatientP | HistoryP | AnalyticsP

record app =
  page :: page_id
  retriagePatient :: "patient option"

definition app_init :: app where
  "app_init = \<lparr>page = DashboardP, retriagePatient = None\<rparr>"

text \<open>Lines 1496-1499 and the \<open>onClearRetriage\<close> prop of line 1508.\<close>

definition handleRetriage :: "patient \<Rightarrow> app \<Rightarrow> app" where
  "handleRetriage p a = a\<lparr>retriagePatient := Some p, page := AddPatientP\<rparr>"

definition onClearRetriage :: "app \<Rightarrow> app" where
  "onClearRetriage a = a\<lparr>retriagePatient := None\<rparr>"

text \<open>Lines 38-41; \<open>n\<close> is the random draw \<open>Math.floor(Math.random() * 90) + 10\<close>.\<close>

definition genPatientId :: "nat \<Rightarrow> string" where
  "genPatientId n = ''PAT-2026-0'' @ digits n"

text \<open>
  The state of a freshly mounted form (lines 247-263), seeded from the re-triage patient
  when there is one. A seeded numeric field \<open>v || ""\<close> reads back through \<open>Number\<close> as
  \<open>v\<close>, also when \<open>v\<close> is 0.
\<close>

definition mount_form :: "patient option \<Rightarrow> nat \<Rightarrow> add_patient" where
  "mount_form r n =
     \<lparr>form =
        (case r of
           None \<Rightarrow>
             \<lparr>form_patient_id = genPatientId n, form_age = Some 0, form_gender = ''Male'',
              form_rural = False, form_heart_rate = Some 0, form_systolic_bp = Some 0,
              form_spo2 = Some 0, form_temperature = Some 0, form_symptoms = []\<rparr>
         | Some p \<Rightarrow>
             \<lparr>form_patient_id = (if patient_id p = [] then genPatientId n else patient_id p),
              form_age = Some (age p),
              form_gender = (if gender p = [] then ''Male'' else gender p),
              form_rural = rural p,
              form_heart_rate = Some (heart_rate (vitals p)),
              form_systolic_bp = Some (systolic_bp (vitals p)),
              form_spo2 = Some (spo2 (vitals p)),
              form_temperature = Some (temperature (vitals p)),
              form_symptoms = join_comma (symptoms p)\<rparr>),
      ap_loading = False, result = None, error = None, nextMove = None,
      recommendations = []\<rparr>"

text \<open>
  An edit of one input (\<open>set(k)\<close>, line 285). In re-triage mode the inputs of the patient
  id and of the age have no \<open>onChange\<close> and are disabled (lines 398 and 402).
\<close>

datatype field_edit =
  SetPatientId string | SetAge "real option" | SetGender string | SetRural bool
  | SetHeartRate "real option" | SetSystolicBp "real option" | SetSpo2 "real option"
  | SetTemperature "real option" | SetSymptoms string

fun set_field :: "bool \<Rightarrow> field_edit \<Rightarrow> form_values \<Rightarrow> form_values" where
  "set_field isRetriage (SetPatientId v) f = (if isRetriage then f else f\<lparr>form_patient_id := v\<rparr>)"
| "set_field isRetriage (SetAge v) f = (if isRetriage then f else f\<lparr>form_age := v\<rparr>)"
| "set_field isRetriage (SetGender v) f = f\<lparr>form_gender := v\<rparr>"
| "set_field isRetriage (SetRural v) f = f\<lparr>form_rural := v\<rparr>"
| "set_field isRetriage (SetHeartRate v) f = f\<lparr>form_heart_rate := v\<rparr>"
| "set_field isRetriage (SetSystolicBp v) f = f\<lparr>form_systolic_bp := v\<rparr>"
| "set_field isRetriage (SetSpo2 v) f = f\<lparr>form_spo2 := v\<rparr>"
| "set_field isRetriage (SetTemperature v) f = f\<lparr>form_temperature := v\<rparr>"
| "set_field isRetriage (SetSymptoms v) f = f\<lparr>form_symptoms := v\<rparr>"

text \<open>
  The console: the App state and the state of the submission form, which is mounted
  while the page is the submission screen. The events:
  \<^item> \<open>ClickRetriage p n\<close>: a Re-triage button of another screen calls \<open>handleRetriage\<close>;
  \<^item> \<open>CancelRetriage n\<close>: the Cancel Re-triage button (line 370), present in re-triage
    mode; the key of the form changes to \<open>"new"\<close>, so the form is mounted afresh;
  \<^item> \<open>Navigate pg n\<close>: the sidebar's \<open>setActive\<close> (line 225);
  \<^item> \<open>EditField e\<close>: an input changes;
  \<^item> \<open>SubmitForm be\<close>: the form is submitted and \<open>submit\<close> runs to its end against
    the backend \<open>be\<close>.
  \<open>n\<close> is the random draw for a generated patient id.
\<close>

record console =
  app_state :: app
  add_form :: add_patient

datatype console_event =
  ClickRetriage patient nat | CancelRetriage nat | Navigate page_id nat
  | EditField field_edit | SubmitForm backend

fun console_step :: "console \<Rightarrow> console_event \<Rightarrow> console" where
  "console_step c (ClickRetriage p n) =
     \<lparr>app_state = handleRetriage p (app_state c), add_form = mount_form (Some p) n\<rparr>"
| "console_step c (CancelRetriage n) =
     (if page (app_state c) = AddPatientP \<and> retriagePatient (app_state c) \<noteq> None
      then \<lparr>app_state = onClearRetriage (app_state c), add_form = mount_form None n\<rparr>
      else c)"
| "console_step c (Navigate pg n) =
     (if pg = AddPatientP \<and> page (app_state c) \<noteq> AddPatientP
      then \<lparr>app_state = (app_state c)\<lparr>page := pg\<rparr>,
            add_form = mount_form (retriagePatient (app_state c)) n\<rparr>
      else c\<lparr>app_state := (app_state c)\<lparr>page := pg\<rparr>\<rparr>)"
| "console_step c (EditField e) =
     (if page (app_state c) = AddPatientP
      then c\<lparr>add_form := (add_form c)
              \<lparr>form := set_field (retriagePatient (app_state c) \<noteq> None) e (form (add_form c))\<rparr>\<rparr>
      else c)"
| "console_step c (SubmitForm be) =
     (if page (app_state c) = AddPatientP
      then c\<lparr>add_form := submit be (add_form c)\<rparr>
      else c)"

definition console_run :: "console \<Rightarrow> console_event list \<Rightarrow> console" where
  "console_run c evs = foldl console_step c evs"

text \<open>The events that set or clear the re-triage patient by the user's explicit action.\<close>

fun explicit_retriage_event :: "console_event \<Rightarrow> bool" where
  "explicit_retriage_event (ClickRetriage p n) = True"
| "explicit_retriage_event (CancelRetriage n) = True"
| "explicit_retriage_event (Navigate pg n) = False"
| "explicit_retriage_event (EditField e) = False"
| "explicit_retriage_event (SubmitForm be) = False"

section \<open>Sample records\<close>

text \<open>A queue record with the given id, category and risk score, for concrete runs.\<close>

definition queue_record :: "string \<Rightarrow> string \<Rightarrow> int \<Rightarrow> patient" where
  "queue_record pid cat risk =
     \<lparr>patient_id = pid, age = 57, gender = ''Female'', rural = False,
      vitals = \<lparr>heart_rate = 82, systolic_bp = 120, spo2 = 97, temperature = 37\<rparr>,
      symptoms = [''chest pain''], triage = cat, risk_score = risk, status = ''WAITING'',
      predicted_next_move = ''OBSERVATION'', priority = ''P2''\<rparr>"

text \<open>A snapshot of two patients.\<close>

definition sample_queue :: queue_data where
  "sample_queue = \<lparr>qd_patients = [queue_record ''PAT-2026-017'' ''YELLOW'' 45,
                                   queue_record ''PAT-2026-042'' ''RED'' 85],
                   queue_last_updated = ''2026-03-01T10:00:00''\<rparr>"

text \<open>A filled-in form and the payload it is sent as.\<close>

definition sample_form :: form_values where
  "sample_form =
     \<lparr>form_patient_id = ''PAT-2026-042'', form_age = Some 57, form_gender = ''Female'',
      form_rural = False, form_heart_rate = Some 130, form_systolic_bp = Some 120,
      form_spo2 = Some 97, form_temperature = Some 37.2,
      form_symptoms = ''Fever, cough,, FEVER , ''\<rparr>"

definition sample_payload :: payload where
  "sample_payload =
     \<lparr>p_patient_id = ''PAT-2026-042'', p_age = 57, p_gender = ''Female'', p_rural = False,
      p_vitals = \<lparr>heart_rate = 130, systolic_bp = 120, spo2 = 97, temperature = 37.2\<rparr>,
      p_symptoms = [''FEVER'', ''cough'']\<rparr>"

text \<open>Responses of the backend, backends for concrete runs and a form that is about to be submitted.\<close>

definition sample_result :: triage_result where
  "sample_result =
     \<lparr>r_risk_score = 85, r_triage_category = ''RED'',
      r_deterioration_probability_60min = 0.85, r_action = ''IMMEDIATE_ATTENTION'',
      r_confidence = ''HIGH'', r_predicted_next_move = Some ''ICU_ADMISSION'',
      r_priority = Some ''P1'', r_timestamp = ''2026-03-01T10:05:00''\<rparr>"

definition sample_prediction :: prediction where
  "sample_prediction =
     \<lparr>n_predicted_next_move = Some ''IN_TREATMENT'', n_priority = Some ''P2'',
      n_confidence_band = Some ''MEDIUM''\<rparr>"

definition sample_recommendations :: recommendation_data where
  "sample_recommendations =
     \<lparr>rec_recommendations = Some [''Start oxygen'', ''Repeat vitals in 15 minutes''],
      rec_source = ''rule_engine''\<rparr>"

definition backend_up :: backend where
  "backend_up =
     \<lparr>api_triage = (\<lambda>pl. Inr sample_result),
      api_nextMove = (\<lambda>pid. Inr sample_prediction),
      api_recommendations = (\<lambda>pid. Inr sample_recommendations)\<rparr>"

definition backend_triage_rejects :: backend where
  "backend_triage_rejects =
     \<lparr>api_triage = (\<lambda>pl. Inl ''Input should be less than or equal to 100''),
      api_nextMove = (\<lambda>pid. Inr sample_prediction),
      api_recommendations = (\<lambda>pid. Inr sample_recommendations)\<rparr>"

definition backend_prediction_down :: backend where
  "backend_prediction_down =
     \<lparr>api_triage = (\<lambda>pl. Inr sample_result),
      api_nextMove = (\<lambda>pid. Inl ''API 504''),
      api_recommendations = (\<lambda>pid. Inr sample_recommendations)\<rparr>"

definition backend_secondaries_down :: backend where
  "backend_secondaries_down =
     \<lparr>api_triage = (\<lambda>pl. Inr sample_result),
      api_nextMove = (\<lambda>pid. Inl ''API 504''),
      api_recommendations = (\<lambda>pid. Inl ''API 503'')\<rparr>"

definition sample_add_patient :: add_patient where
  "sample_add_patient =
     \<lparr>form = sample_form, ap_loading = False, result = None, error = None, nextMove = None,
      recommendations = []\<rparr>"

text \<open>The console when the application starts, on the dashboard.\<close>

definition console_init :: console where
  "console_init = \<lparr>app_state = app_init, add_form = mount_form None 17\<rparr>"

section \<open>The alert life cycle\<close>

lemma rendered_ids_not_dismissed: "pid \<in> dismissed s \<Longrightarrow> pid \<notin> rendered_ids s"
  by (auto simp: rendered_ids_def rendered_alerts_def critical_def Let_def
      dest: in_set_takeD split: if_splits)

lemma rendered_ids_critical:
  "pid \<in> rendered_ids s \<Longrightarrow> pid \<in> patient_id ` set (criticalSubset (patients s))"
  by (auto simp: rendered_ids_def rendered_alerts_def critical_def Let_def
      dest: in_set_takeD split: if_splits)

lemma notif_step_dismissed_mono: "pid \<in> dismissed s \<Longrightarrow> pid \<in> dismissed (notif_step s e)"
  by (cases e) auto

lemma notif_run_dismissed_mono: "pid \<in> dismissed s \<Longrightarrow> pid \<in> dismissed (notif_run s evs)"
  unfolding notif_run_def
  by (induction evs arbitrary: s) (auto simp: notif_step_dismissed_mono)

lemma dismiss_rendered: "pid \<in> rendered_ids s \<Longrightarrow> pid \<in> dismissed (notif_step s (Dismiss pid))"
  by simp

lemma notif_step_keeps_critical:
  "keeps_critical pid e \<Longrightarrow> pid \<in> patient_id ` set (criticalSubset (patients s))
   \<Longrightarrow> pid \<in> patient_id ` set (criticalSubset (patients (notif_step s e)))"
  by (cases e) auto

lemma notif_run_keeps_critical:
  "list_all (keeps_critical pid) evs
   \<Longrightarrow> pid \<in> patient_id ` set (criticalSubset (patients s))
   \<Longrightarrow> pid \<in> patient_id ` set (criticalSubset (patients (notif_run s evs)))"
  unfolding notif_run_def
proof (induction evs arbitrary: s)
  case Nil
  then show ?case by simp
next
  case (Cons e evs)
  have "pid \<in> patient_id ` set (criticalSubset (patients (notif_step s e)))"
    using Cons.prems by (intro notif_step_keeps_critical) auto
  with Cons show ?case by simp
qed

lemma sample_alert_rendered:
  "''PAT-2026-042'' \<in> rendered_ids (mount_notifications [queue_record ''PAT-2026-042'' ''RED'' 85])"
  by (simp add: rendered_ids_def rendered_alerts_def critical_def criticalSubset_def
      is_critical_def mount_notifications_def queue_record_def)

text \<open>
  Claim C6. An alert that the user dismisses, for a patient who is in the critical subset
  of every later snapshot, is not rendered in any later state of the dashboard view:
  after every prefix of the later events the patient is still critical and the alert is
  still hidden.
\<close>

theorem dismissed_alert_stays_hidden:
  assumes "pid \<in> rendered_ids s"
    and "list_all (keeps_critical pid) evs"
  shows "pid \<in> patient_id ` set (criticalSubset
             (patients (notif_run (notif_step s (Dismiss pid)) (take n evs))))
       \<and> pid \<notin> rendered_ids (notif_run (notif_step s (Dismiss pid)) (take n evs))"
proof
  have k: "list_all (keeps_critical pid) (take n evs)"
    using assms(2) by (auto simp: list_all_iff dest: in_set_takeD)
  have "pid \<in> patient_id ` set (criticalSubset (patients (notif_step s (Dismiss pid))))"
    using rendered_ids_critical [OF assms(1)] by simp
  with k show "pid \<in> patient_id ` set (criticalSubset
      (patients (notif_run (notif_step s (Dismiss pid)) (take n evs))))"
    by (rule notif_run_keeps_critical)
  have "pid \<in> dismissed (notif_run (notif_step s (Dismiss pid)) (take n evs))"
    using assms(1) by (intro notif_run_dismissed_mono dismiss_rendered)
  then show "pid \<notin> rendered_ids (notif_run (notif_step s (Dismiss pid)) (take n evs))"
    by (rule rendered_ids_not_dismissed)
qed

theorem dismissed_alert_stays_hidden_witness:
  "''PAT-2026-042'' \<in> rendered_ids (mount_notifications [queue_record ''PAT-2026-042'' ''RED'' 85])
   \<and> ''PAT-2026-042'' \<in> patient_id ` set (criticalSubset (patients
        (notif_run (notif_step (mount_notifications [queue_record ''PAT-2026-042'' ''RED'' 85])
                      (Dismiss ''PAT-2026-042''))
           (take 3 [Snapshot [queue_record ''PAT-2026-042'' ''ORANGE'' 70], ToggleExpanded,
                    Snapshot [queue_record ''PAT-2026-042'' ''RED'' 90]]))))
   \<and> ''PAT-2026-042'' \<notin> rendered_ids
        (notif_run (notif_step (mount_notifications [queue_record ''PAT-2026-042'' ''RED'' 85])
                      (Dismiss ''PAT-2026-042''))
           (take 3 [Snapshot [queue_record ''PAT-2026-042'' ''ORANGE'' 70], ToggleExpanded,
                    Snapshot [queue_record ''PAT-2026-042'' ''RED'' 90]]))"
proof -
  have k: "list_all (keeps_critical ''PAT-2026-042'')
             [Snapshot [queue_record ''PAT-2026-042'' ''ORANGE'' 70], ToggleExpanded,
              Snapshot [queue_record ''PAT-2026-042'' ''RED'' 90]]"
    by (simp add: criticalSubset_def is_critical_def queue_record_def)
  show ?thesis
    using sample_alert_rendered dismissed_alert_stays_hidden [OF sample_alert_rendered k, of 3]
    by blast
qed

text \<open>
  Claim C1, as stated, fails: the patient's alert is rendered at risk 85 and dismissed;
  the patient leaves the critical subset at risk 30 and re-enters it at risk 70; the alert
  is not rendered again. The component only ever adds to \<open>dismissed\<close>.
\<close>

theorem dismissal_cleared_on_exit_counterexample:
  "''PAT-2026-042'' \<in> rendered_ids (mount_notifications [queue_record ''PAT-2026-042'' ''RED'' 85])
   \<and> ''PAT-2026-042'' \<notin> patient_id ` set (criticalSubset [queue_record ''PAT-2026-042'' ''GREEN'' 30])
   \<and> ''PAT-2026-042'' \<in> patient_id ` set (criticalSubset [queue_record ''PAT-2026-042'' ''ORANGE'' 70])
   \<and> ''PAT-2026-042'' \<notin> rendered_ids
        (notif_run (mount_notifications [queue_record ''PAT-2026-042'' ''RED'' 85])
           [Dismiss ''PAT-2026-042'',
            Snapshot [queue_record ''PAT-2026-042'' ''GREEN'' 30],
            Snapshot [queue_record ''PAT-2026-042'' ''ORANGE'' 70]])"
  by (simp add: rendered_ids_def rendered_alerts_def critical_def criticalSubset_def
        is_critical_def mount_notifications_def queue_record_def notif_run_def)

text \<open>
  Claim C1, amended. A dismissal lasts for the whole dashboard view: when a dismissed
  patient leaves the critical subset in a later snapshot and re-enters it in a yet later
  one, the alert stays hidden, whatever else happens in between and afterwards.
\<close>

theorem dismissal_survives_exit_and_reentry:
  assumes "pid \<in> rendered_ids s"
    and "pid \<notin> patient_id ` set (criticalSubset out)"
    and "pid \<in> patient_id ` set (criticalSubset back)"
  shows "pid \<notin> rendered_ids
           (notif_run (notif_step s (Dismiss pid))
              (evs1 @ [Snapshot out] @ evs2 @ [Snapshot back] @ evs3))"
  using assms(1)
  by (intro rendered_ids_not_dismissed notif_run_dismissed_mono dismiss_rendered)

theorem dismissal_survives_exit_and_reentry_witness:
  "''PAT-2026-042'' \<notin> rendered_ids
        (notif_run (notif_step (mount_notifications [queue_record ''PAT-2026-042'' ''RED'' 85])
                      (Dismiss ''PAT-2026-042''))
           ([] @ [Snapshot [queue_record ''PAT-2026-042'' ''GREEN'' 30]] @ [ToggleExpanded]
            @ [Snapshot [queue_record ''PAT-2026-042'' ''ORANGE'' 70]] @ []))"
proof -
  have b: "''PAT-2026-042'' \<notin> patient_id ` set (criticalSubset [queue_record ''PAT-2026-042'' ''GREEN'' 30])"
    by (simp add: criticalSubset_def is_critical_def queue_record_def)
  have c: "''PAT-2026-042'' \<in> patient_id ` set (criticalSubset [queue_record ''PAT-2026-042'' ''ORANGE'' 70])"
    by (simp add: criticalSubset_def is_critical_def queue_record_def)
  show ?thesis
    using dismissal_survives_exit_and_reentry [OF sample_alert_rendered b c, of "[]" "[ToggleExpanded]" "[]"]
    by blast
qed

section \<open>The pollers\<close>

lemma poller_step_single_flight:
  "settles_before_next (in_flight s) (e # evs) \<Longrightarrow> in_flight s \<le> 1
   \<Longrightarrow> in_flight (poller_step settle s e) \<le> 1
     \<and> settles_before_next (in_flight (poller_step settle s e)) evs"
  by (cases e) auto

lemma poller_run_single_flight:
  "settles_before_next (in_flight s) evs \<Longrightarrow> in_flight s \<le> 1
   \<Longrightarrow> in_flight (poller_run settle s (take n evs)) \<le> 1"
proof (induction evs arbitrary: s n)
  case Nil
  then show ?case by (simp add: poller_run_def)
next
  case (Cons e evs)
  show ?case
  proof (cases n)
    case 0
    with Cons.prems show ?thesis by (simp add: poller_run_def)
  next
    case (Suc m)
    have "in_flight (poller_run settle (poller_step settle s e) (take m evs)) \<le> 1"
      using poller_step_single_flight [OF Cons.prems] by (intro Cons.IH) auto
    with Suc show ?thesis by (simp add: poller_run_def)
  qed
qed

text \<open>
  Claim C2, as stated, fails: the queue poller starts a fetch when it is mounted, and
  when the timer fires before that fetch has settled it starts a second one; two fetches
  of the same poller are then in flight.
\<close>

theorem overlapping_fetches_counterexample:
  "in_flight (poller_run fetch_settled (poller_mount queue_page_init) [TimerTick]) = 2"
  by (simp add: poller_run_def poller_mount_def)

text \<open>
  Claim C2, amended. For each of the three pollers (whatever the page does when a fetch
  settles), no two fetches are in flight at the same time as long as every fetch settles
  before the next one is started; the timer itself does not wait for the previous fetch.
\<close>

theorem single_flight_when_fetches_settle_in_time:
  assumes "settles_before_next (in_flight s) evs" and "in_flight s \<le> 1"
  shows "in_flight (poller_run settle s (take n evs)) \<le> 1"
  using assms by (rule poller_run_single_flight)

theorem single_flight_when_fetches_settle_in_time_witness:
  "in_flight (poller_run fetch_settled (poller_mount queue_page_init)
      (take 4 [Settled (Inr sample_queue), TimerTick, Settled (Inl ''API 500''), TimerTick])) \<le> 1"
proof -
  have a: "settles_before_next (in_flight (poller_mount queue_page_init))
      [Settled (Inr sample_queue), TimerTick, Settled (Inl ''API 500''), TimerTick]"
    by (simp add: poller_mount_def)
  have b: "in_flight (poller_mount queue_page_init) \<le> 1"
    by (simp add: poller_mount_def)
  show ?thesis
    using single_flight_when_fetches_settle_in_time [OF a b, of fetch_settled 4] by simp
qed

text \<open>
  Claim C7, as stated, fails: the queue page has no error or staleness cell. After the
  first settled fetch a failed poll leaves the page state exactly as it was, so nothing is
  raised for the consumer.
\<close>

theorem failed_fetch_raises_flag_counterexample:
  "page_state (poller_step fetch_settled
       \<lparr>page_state = queue_page_init\<lparr>queueData := Some sample_queue, loading := False\<rparr>,
        in_flight = 1\<rparr> (Settled (Inl ''API 500'')))
   = queue_page_init\<lparr>queueData := Some sample_queue, loading := False\<rparr>"
  by (simp add: queue_page_init_def)

text \<open>
  Claim C7, amended. When a queue fetch fails, the snapshot shown before stays as it was,
  the rejection is consumed by the handler (the step yields a page state), and the only
  change to the page state is \<open>loading := false\<close>: no error or staleness flag is set.
\<close>

theorem failed_fetch_keeps_snapshot:
  assumes "0 < in_flight s"
  shows "queueData (page_state (poller_step fetch_settled s (Settled (Inl msg))))
           = queueData (page_state s)
       \<and> page_state (poller_step fetch_settled s (Settled (Inl msg)))
           = (page_state s)\<lparr>loading := False\<rparr>"
  using assms by simp

theorem failed_fetch_keeps_snapshot_witness:
  "queueData (page_state (poller_step fetch_settled
       \<lparr>page_state = queue_page_init\<lparr>queueData := Some sample_queue, loading := False\<rparr>,
        in_flight = 1\<rparr> (Settled (Inl ''API 500''))))
   = Some sample_queue"
  using failed_fetch_keeps_snapshot [of "\<lparr>page_state = queue_page_init\<lparr>queueData := Some sample_queue, loading := False\<rparr>,
        in_flight = 1\<rparr>" "''API 500''"]
  by (simp add: queue_page_init_def)

text \<open>
  The dashboard poller also keeps its snapshot on a failure and sets nothing; the
  analytics poller drops its summary.
\<close>

lemma dashboard_failed_fetch: "dashboard_settled s (Inl msg) = s"
  by simp

lemma analytics_failed_fetch: "summary (loadSummary_settled s (Inl msg)) = None"
  by simp

section \<open>The risk-sorted list\<close>

lemma mset_insert_by: "mset (insert_by cmp x xs) = add_mset x (mset xs)"
  by (induction xs) auto

lemma mset_array_sort: "mset (array_sort cmp xs) = mset xs"
  by (induction xs) (auto simp: array_sort_def mset_insert_by)

lemma set_insert_by: "set (insert_by cmp x xs) = insert x (set xs)"
  by (induction xs) auto

lemma sorted_insert_by_risk:
  "sorted_wrt (\<lambda>a b. risk_score a \<ge> risk_score b) xs
   \<Longrightarrow> sorted_wrt (\<lambda>a b. risk_score a \<ge> risk_score b) (insert_by by_risk_desc x xs)"
  by (induction xs) (auto simp: set_insert_by by_risk_desc_def)

lemma sorted_array_sort_risk:
  "sorted_wrt (\<lambda>a b. risk_score a \<ge> risk_score b) (array_sort by_risk_desc xs)"
proof (induction xs)
  case Nil
  then show ?case by (simp add: array_sort_def)
next
  case (Cons x xs)
  then show ?case using sorted_insert_by_risk [of "array_sort by_risk_desc xs" x]
    by (simp add: array_sort_def)
qed

lemma filter_insert_by_risk:
  "filter (\<lambda>p. risk_score p = k) (insert_by by_risk_desc x xs)
   = filter (\<lambda>p. risk_score p = k) (x # xs)"
  by (induction xs) (auto simp: by_risk_desc_def)

lemma filter_array_sort_risk:
  "filter (\<lambda>p. risk_score p = k) (array_sort by_risk_desc xs) = filter (\<lambda>p. risk_score p = k) xs"
proof (induction xs)
  case Nil
  then show ?case by (simp add: array_sort_def)
next
  case (Cons x xs)
  have "filter (\<lambda>p. risk_score p = k) (array_sort by_risk_desc (x # xs))
      = filter (\<lambda>p. risk_score p = k) (x # array_sort by_risk_desc xs)"
    by (simp only: array_sort_def foldr.simps o_apply filter_insert_by_risk)
  with Cons show ?case by simp
qed

lemma array_sort_sorted_id:
  "sorted_wrt (\<lambda>a b. risk_score a \<ge> risk_score b) xs \<Longrightarrow> array_sort by_risk_desc xs = xs"
proof (induction xs)
  case Nil
  then show ?case by (simp add: array_sort_def)
next
  case (Cons x xs)
  then have "array_sort by_risk_desc xs = xs" by simp
  then have "array_sort by_risk_desc (x # xs) = insert_by by_risk_desc x xs"
    by (simp add: array_sort_def)
  also have "\<dots> = x # xs" using Cons.prems by (cases xs) (auto simp: by_risk_desc_def)
  finally show ?case .
qed

text \<open>
  Claim C8. The risk-sorted list is in descending order of \<open>risk_score\<close>, holds the
  patients of the snapshot, keeps the patients of each risk score \<open>k\<close> in their snapshot
  order, and sorting again changes nothing.
\<close>

theorem sortedByRisk_descending_stable:
  "sorted_wrt (\<lambda>a b. risk_score a \<ge> risk_score b) (sortedByRisk ps)
   \<and> mset (sortedByRisk ps) = mset ps
   \<and> filter (\<lambda>p. risk_score p = k) (sortedByRisk ps) = filter (\<lambda>p. risk_score p = k) ps
   \<and> sortedByRisk (sortedByRisk ps) = sortedByRisk ps"
  unfolding sortedByRisk_def
  using sorted_array_sort_risk [of ps] mset_array_sort [of by_risk_desc ps]
    filter_array_sort_risk [of k ps] array_sort_sorted_id [OF sorted_array_sort_risk [of ps]]
  by simp

section \<open>The category counts\<close>

lemma length_filter_array_sort:
  "length (filter P (array_sort cmp xs)) = length (filter P xs)"
proof -
  have "size (filter_mset P (mset (array_sort cmp xs))) = size (filter_mset P (mset xs))"
    by (simp add: mset_array_sort)
  then show ?thesis by (simp only: mset_filter [symmetric] size_mset)
qed

lemma four_counts:
  "list_all valid_category ps \<Longrightarrow> red ps + orange ps + yellow ps + green ps = length ps"
  by (induction ps) (auto simp: valid_category_def categories_def red_def orange_def yellow_def green_def)

lemma categoryStats_sum:
  "sum_list (map snd (categoryStats ps)) = red ps + orange ps + yellow ps + green ps"
  by (simp add: categoryStats_def categories_def red_def orange_def yellow_def green_def)

text \<open>
  Claim C9. For a snapshot whose records carry one of the four triage categories, the
  four tallies of the queue screen (taken over the sorted list) and the four counters of
  the dashboard each sum to the number of patients in the snapshot.
\<close>

theorem category_counts_sum_to_length:
  assumes "list_all valid_category (pts qd)"
  shows "sum_list (map snd (categoryStats (queue_sorted qd))) = length (pts qd)
       \<and> red (pts qd) + orange (pts qd) + yellow (pts qd) + green (pts qd) = length (pts qd)"
proof
  have "sum_list (map snd (categoryStats (queue_sorted qd)))
      = red (pts qd) + orange (pts qd) + yellow (pts qd) + green (pts qd)"
    by (cases qd)
      (simp_all add: categoryStats_def categories_def queue_sorted_def pts_def sortedByRisk_def
        length_filter_array_sort red_def orange_def yellow_def green_def)
  then show "sum_list (map snd (categoryStats (queue_sorted qd))) = length (pts qd)"
    using four_counts [OF assms] by simp
  show "red (pts qd) + orange (pts qd) + yellow (pts qd) + green (pts qd) = length (pts qd)"
    using four_counts [OF assms] .
qed

theorem category_counts_sum_to_length_witness:
  "sum_list (map snd (categoryStats (queue_sorted (Some sample_queue)))) = 2
   \<and> red (pts (Some sample_queue)) + orange (pts (Some sample_queue))
     + yellow (pts (Some sample_queue)) + green (pts (Some sample_queue)) = 2"
proof -
  have v: "list_all valid_category (pts (Some sample_queue))"
    by (simp add: pts_def sample_queue_def valid_category_def categories_def queue_record_def)
  show ?thesis
    using category_counts_sum_to_length [OF v] by (simp add: pts_def sample_queue_def)
qed

section \<open>The symptoms of the payload\<close>


















text \<open>
  The spelling that is kept is the one of the last occurrence: the map entry of a key is
  overwritten where it stands.
\<close>

lemma sample_symptoms: "dedupedSymptoms [''Fever'', ''cough'', ''FEVER''] = [''FEVER'', ''cough'']"
  by code_simp

lemma sample_split: "split_symptoms ''Fever, cough,, FEVER , '' = [''Fever'', ''cough'', ''FEVER'']"
  by code_simp

lemma build_sample_payload: "build_payload sample_form = Inr sample_payload"
  by (simp add: build_payload_def sample_form_def sample_payload_def sample_symptoms sample_split)


section \<open>The submission\<close>

lemma error_message_nonempty: "error_message msg \<noteq> []"
  by (simp add: error_message_def)

lemma submit_states_primary_failure:
  "build_payload (form s) = Inr pl \<Longrightarrow> api_triage be pl = Inl msg \<Longrightarrow>
   submit_states be s =
     ([s\<lparr>ap_loading := True, result := None, error := None, nextMove := None,
          recommendations := []\<rparr>,
       s\<lparr>ap_loading := False, result := None, error := Some (error_message msg),
         nextMove := None, recommendations := []\<rparr>],
      [Triage pl])"
  by (simp add: submit_states_def)

lemma submit_states_primary_success:
  "build_payload (form s) = Inr pl \<Longrightarrow> api_triage be pl = Inr data \<Longrightarrow>
   submit_states be s =
     ([s\<lparr>ap_loading := True, result := None, error := None, nextMove := None,
          recommendations := []\<rparr>,
       s\<lparr>ap_loading := True, result := Some data, error := None, nextMove := None,
          recommendations := []\<rparr>,
       s\<lparr>ap_loading := False, result := Some data, error := None,
         nextMove := catch_null (api_nextMove be (p_patient_id pl)),
         recommendations :=
           recommendations_or_empty (catch_null (api_recommendations be (p_patient_id pl)))\<rparr>],
      [Triage pl, NextMove (p_patient_id pl), Recommendations (p_patient_id pl)])"
  by (simp add: submit_states_def Let_def)

text \<open>
  Claim C3. When the form passes validation and the triage call fails, the triage call is
  the only request of the submission (no prediction call, no recommendations call), the
  banner shows the message of the failure (the default text when the message is empty),
  and no result is shown.
\<close>

theorem primary_failure_stops_submission:
  assumes "build_payload (form s) = Inr pl" and "api_triage be pl = Inl msg"
  shows "submit_calls be s = [Triage pl]
       \<and> error (submit be s) = Some (error_message msg)
       \<and> error_banner (submit be s) = Some (error_message msg)
       \<and> (msg \<noteq> [] \<longrightarrow> error_banner (submit be s) = Some msg)
       \<and> result (submit be s) = None \<and> result_panel (submit be s) = None
       \<and> \<not> ap_loading (submit be s)"
  using submit_states_primary_failure [OF assms]
  by (simp add: submit_calls_def submit_def error_banner_def result_panel_def
      error_message_def)

lemma build_sample_add_patient: "build_payload (form sample_add_patient) = Inr sample_payload"
  by (simp add: sample_add_patient_def build_sample_payload)

theorem primary_failure_stops_submission_witness:
  "submit_calls backend_triage_rejects sample_add_patient = [Triage sample_payload]
   \<and> error_banner (submit backend_triage_rejects sample_add_patient)
       = Some ''Input should be less than or equal to 100''"
proof -
  have t: "api_triage backend_triage_rejects sample_payload
             = Inl ''Input should be less than or equal to 100''"
    by (simp add: backend_triage_rejects_def)
  show ?thesis
    using primary_failure_stops_submission [OF build_sample_add_patient t]
    by (simp add: error_message_def)
qed

text \<open>
  Claim C4. When the triage call succeeds and the prediction call or the recommendations
  call fails, the result stays set from line 332 on, the card shows the risk, category and
  confidence of the triage response, no error is set, the failed prediction is \<open>null\<close>,
  the failed recommendation list is empty, and with both failed the prediction section is
  not rendered.
\<close>

theorem secondary_failure_degrades:
  assumes "build_payload (form s) = Inr pl" and "api_triage be pl = Inr data"
    and "api_nextMove be (p_patient_id pl) = Inl e1
         \<or> api_recommendations be (p_patient_id pl) = Inl e2"
  shows "map result (fst (submit_states be s)) = [None, Some data, Some data]
       \<and> result (submit be s) = Some data
       \<and> map_option card_risk_score (result_panel (submit be s)) = Some (r_risk_score data)
       \<and> map_option card_category (result_panel (submit be s)) = Some (r_triage_category data)
       \<and> map_option card_confidence (result_panel (submit be s)) = Some (r_confidence data)
       \<and> error (submit be s) = None \<and> error_banner (submit be s) = None
       \<and> \<not> ap_loading (submit be s)
       \<and> (api_nextMove be (p_patient_id pl) = Inl e1 \<longrightarrow> nextMove (submit be s) = None)
       \<and> (api_recommendations be (p_patient_id pl) = Inl e2
            \<longrightarrow> recommendations (submit be s) = [])
       \<and> (api_nextMove be (p_patient_id pl) = Inl e1
            \<and> api_recommendations be (p_patient_id pl) = Inl e2
            \<longrightarrow> \<not> prediction_section (submit be s))"
  using submit_states_primary_success [OF assms(1,2)]
  by (simp add: submit_def error_banner_def result_panel_def prediction_section_def
      catch_null_def recommendations_or_empty_def)

theorem secondary_failure_degrades_witness:
  "result (submit backend_secondaries_down sample_add_patient) = Some sample_result
   \<and> map_option card_risk_score (result_panel (submit backend_secondaries_down sample_add_patient))
       = Some 85
   \<and> nextMove (submit backend_secondaries_down sample_add_patient) = None
   \<and> recommendations (submit backend_secondaries_down sample_add_patient) = []
   \<and> error (submit backend_secondaries_down sample_add_patient) = None
   \<and> \<not> prediction_section (submit backend_secondaries_down sample_add_patient)"
proof -
  have t: "api_triage backend_secondaries_down sample_payload = Inr sample_result"
    by (simp add: backend_secondaries_down_def)
  have n: "api_nextMove backend_secondaries_down (p_patient_id sample_payload) = Inl ''API 504''
         \<or> api_recommendations backend_secondaries_down (p_patient_id sample_payload)
             = Inl ''API 503''"
    by (simp add: backend_secondaries_down_def)
  show ?thesis
    using secondary_failure_degrades [OF build_sample_add_patient t n]
    by (simp add: backend_secondaries_down_def sample_result_def)
qed

text \<open>
  With the prediction down and the recommendations up, the card falls back to the
  predicted move and the priority of the triage response.
\<close>

lemma prediction_down_falls_back:
  "map_option card_predicted_move (result_panel (submit backend_prediction_down sample_add_patient))
     = Some ''ICU ADMISSION''
   \<and> map_option card_priority (result_panel (submit backend_prediction_down sample_add_patient))
     = Some ''P1''
   \<and> recommendations (submit backend_prediction_down sample_add_patient)
     = [''Start oxygen'', ''Repeat vitals in 15 minutes'']"
  by (simp add: submit_def submit_states_def build_sample_add_patient Let_def
      backend_prediction_down_def result_panel_def catch_null_def recommendations_or_empty_def
      sample_result_def sample_recommendations_def or_else_def or_default_def
      replaceAll_underscores_def)

text \<open>The message that \<open>request\<close> throws is never empty, so it is the one shown.\<close>

lemma digits_nonempty: "digits n \<noteq> []"
  by (induction n rule: digits.induct) (subst digits.simps, simp)

lemma request_error_message_nonempty: "request_error_message http_status d \<noteq> []"
  by (simp add: request_error_message_def or_default_def split: option.splits)

section \<open>The re-triage intent\<close>

lemma console_step_keeps_retriage:
  "\<not> explicit_retriage_event e
   \<Longrightarrow> retriagePatient (app_state (console_step c e)) = retriagePatient (app_state c)"
  by (cases e) auto

text \<open>
  Claim C5, amended. The re-triage patient is changed only by the user's explicit actions
  (a Re-triage button, Cancel Re-triage): submissions, successful or not, edits and
  navigation leave it as it is.
\<close>

theorem retriage_intent_outlives_submission:
  assumes "list_all (\<lambda>e. \<not> explicit_retriage_event e) evs"
  shows "retriagePatient (app_state (console_run c evs)) = retriagePatient (app_state c)"
  using assms unfolding console_run_def
proof (induction evs arbitrary: c)
  case Nil
  then show ?case by simp
next
  case (Cons e evs)
  then show ?case using console_step_keeps_retriage [of e c] by simp
qed

lemma chest_pain: "split_symptoms ''chest pain'' = [''chest pain'']"
  by code_simp

lemma chest_pain_dedup: "dedupedSymptoms [''chest pain''] = [''chest pain'']"
  by code_simp

lemma retriage_submission_succeeds:
  "result (add_form (console_run console_init
      [ClickRetriage (queue_record ''PAT-2026-042'' ''RED'' 85) 42,
       EditField (SetHeartRate (Some 130)), SubmitForm backend_up])) = Some sample_result"
  by (simp add: console_run_def console_init_def app_init_def handleRetriage_def
      mount_form_def queue_record_def submit_def submit_states_def build_payload_def
      chest_pain chest_pain_dedup backend_up_def Let_def)

text \<open>
  Claim C5, as stated, fails: a patient is picked for re-triage, the heart rate is
  edited and the form is submitted with success; the re-triage patient is still set.
  \<open>submit\<close> never calls \<open>onClearRetriage\<close>.
\<close>

theorem retriage_intent_cleared_counterexample:
  "result (add_form (console_run console_init
      [ClickRetriage (queue_record ''PAT-2026-042'' ''RED'' 85) 42,
       EditField (SetHeartRate (Some 130)), SubmitForm backend_up])) = Some sample_result
   \<and> retriagePatient (app_state (console_run console_init
      [ClickRetriage (queue_record ''PAT-2026-042'' ''RED'' 85) 42,
       EditField (SetHeartRate (Some 130)), SubmitForm backend_up]))
     = Some (queue_record ''PAT-2026-042'' ''RED'' 85)"
  using retriage_submission_succeeds
  by (simp add: console_run_def console_init_def app_init_def handleRetriage_def)

theorem retriage_intent_outlives_submission_witness:
  "retriagePatient (app_state (console_run
      (console_step console_init (ClickRetriage (queue_record ''PAT-2026-042'' ''RED'' 85) 42))
      [EditField (SetHeartRate (Some 130)), SubmitForm backend_up, Navigate QueueP 11]))
   = Some (queue_record ''PAT-2026-042'' ''RED'' 85)"
proof -
  have a: "list_all (\<lambda>e. \<not> explicit_retriage_event e)
      [EditField (SetHeartRate (Some 130)), SubmitForm backend_up, Navigate QueueP 11]"
    by simp
  show ?thesis
    using retriage_intent_outlives_submission [OF a,
        of "console_step console_init (ClickRetriage (queue_record ''PAT-2026-042'' ''RED'' 85) 42)"]
    by (simp add: handleRetriage_def)
qed

end
